theory Spec2Isabelle
  imports Complex_Main
begin

section \<open>Data model (src/types.ts)\<close>

text \<open>
  JavaScript numbers are modelled as real numbers: every arithmetic operation of the
  editor is read without rounding, and a division is only meaningful where the divisor
  is not zero (JavaScript would give an infinity or NaN there, HOL gives 0); theorems
  that depend on a division state that the divisor is positive.
\<close>

record Point =
  x :: real
  y :: real

text \<open>The field \<^verbatim>\<open>size\<close> of the source is named \<open>path_size\<close> here.\<close>

record DrawPath =
  points :: "Point list"
  path_size :: real

datatype EditorMode = DRAW | PAN

text \<open>
  The editor only reads the pixel dimensions of the loaded image element
  (\<^verbatim>\<open>img.width\<close>, \<^verbatim>\<open>img.height\<close>), which the DOM gives as unsigned integers.
\<close>

record ImageDimensions =
  width :: nat
  height :: nat

section \<open>Component state and environment (src/components/ImageEditor.tsx)\<close>

text \<open>
  The container element, as far as the editor reads it: its client size and the
  top-left corner of its bounding rectangle.
\<close>

record Container =
  clientWidth :: nat
  clientHeight :: nat
  rect_left :: real
  rect_top :: real

text \<open>
  What a handler reads from outside the component's own state: the container
  reference, the \<^verbatim>\<open>isProcessing\<close> property, and whether an off-screen
  canvas hands out a 2d context.
\<close>

record Env =
  containerRef :: "Container option"
  isProcessing :: bool
  context2d :: bool

text \<open>The state hooks and the image reference of the component, lines 14 to 29.\<close>

record Editor =
  imageRef :: "ImageDimensions option"
  mode :: EditorMode
  brushSize :: real
  paths :: "DrawPath list"
  scale :: real
  offset :: Point
  isDragging :: bool
  lastMousePos :: Point
  isDrawing :: bool
  currentPath :: "Point list"

definition initialEditor :: Editor where
  "initialEditor =
     \<lparr>imageRef = None, mode = DRAW, brushSize = 20, paths = [], scale = 1,
      offset = \<lparr>x = 0, y = 0\<rparr>, isDragging = False,
      lastMousePos = \<lparr>x = 0, y = 0\<rparr>, isDrawing = False, currentPath = []\<rparr>"

text \<open>
  A mouse event carries its client position; a touch event carries its list of
  touches, of which the handlers read the first. A touch-start or touch-move event
  always lists the touch that caused it, so the list is modelled as non-empty.
\<close>

datatype PointerEvent =
  MouseEvent real real
  | TouchEvent "real \<times> real" "(real \<times> real) list"

fun clientX :: "PointerEvent \<Rightarrow> real" where
  "clientX (MouseEvent cx cy) = cx"
| "clientX (TouchEvent t ts) = fst t"

fun clientY :: "PointerEvent \<Rightarrow> real" where
  "clientY (MouseEvent cx cy) = cy"
| "clientY (TouchEvent t ts) = snd t"

subsection \<open>Viewport transform\<close>

text \<open>Lines 116 and 117: the pointer position relative to the container.\<close>

definition containerCoords :: "Container \<Rightarrow> PointerEvent \<Rightarrow> Point" where
  "containerCoords c e = \<lparr>x = clientX e - rect_left c, y = clientY e - rect_top c\<rparr>"

text \<open>\<^verbatim>\<open>getRelativeCoords\<close>, lines 108 to 124.\<close>

definition getRelativeCoords :: "Env \<Rightarrow> Editor \<Rightarrow> PointerEvent \<Rightarrow> Point option" where
  "getRelativeCoords env s e =
     (case containerRef env of
        None \<Rightarrow> None
      | Some c \<Rightarrow>
          (case imageRef s of
             None \<Rightarrow> None
           | Some img \<Rightarrow>
               (let containerX = clientX e - rect_left c;
                    containerY = clientY e - rect_top c;
                    imageX = (containerX - x (offset s)) / scale s;
                    imageY = (containerY - y (offset s)) / scale s
                in Some \<lparr>x = imageX, y = imageY\<rparr>)))"

text \<open>
  The forward transform is the style of the canvas element, lines 239 to 242:
  \<^verbatim>\<open>translate(offset.x, offset.y) scale(scale)\<close> with origin \<^verbatim>\<open>0 0\<close>, which
  sends an image point to \<open>image * scale + offset\<close> in the container.
\<close>

definition toContainerSpace :: "Editor \<Rightarrow> Point \<Rightarrow> Point" where
  "toContainerSpace s p =
     \<lparr>x = x p * scale s + x (offset s), y = y p * scale s + y (offset s)\<rparr>"

text \<open>\<^verbatim>\<open>fitImageToContainer\<close>, lines 42 to 58.\<close>

definition fitImageToContainer :: "Env \<Rightarrow> real \<Rightarrow> real \<Rightarrow> Editor \<Rightarrow> Editor" where
  "fitImageToContainer env imgWidth imgHeight s =
     (case containerRef env of
        None \<Rightarrow> s
      | Some c \<Rightarrow>
          (let scaleX = real (clientWidth c) / imgWidth;
               scaleY = real (clientHeight c) / imgHeight;
               initialScale = min scaleX (min scaleY 1) * 0.9
           in s\<lparr>scale := initialScale,
                 offset := \<lparr>x = (real (clientWidth c) - imgWidth * initialScale) / 2,
                             y = (real (clientHeight c) - imgHeight * initialScale) / 2\<rparr>,
                 paths := []\<rparr>))"

text \<open>The \<^verbatim>\<open>onload\<close> callback of the image, lines 35 to 38.\<close>

definition imageOnload :: "Env \<Rightarrow> ImageDimensions \<Rightarrow> Editor \<Rightarrow> Editor" where
  "imageOnload env img s =
     fitImageToContainer env (real (width img)) (real (height img)) (s\<lparr>imageRef := Some img\<rparr>)"

subsection \<open>Event handlers\<close>

text \<open>\<^verbatim>\<open>handleMouseDown\<close>, lines 127 to 142.\<close>

definition handleMouseDown :: "Env \<Rightarrow> PointerEvent \<Rightarrow> Editor \<Rightarrow> Editor" where
  "handleMouseDown env e s =
     (if isProcessing env then s
      else if mode s = PAN then
        s\<lparr>isDragging := True, lastMousePos := \<lparr>x = clientX e, y = clientY e\<rparr>\<rparr>
      else
        (case getRelativeCoords env s e of
           None \<Rightarrow> s
         | Some coords \<Rightarrow> s\<lparr>isDrawing := True, currentPath := [coords]\<rparr>))"

text \<open>\<^verbatim>\<open>handleMouseMove\<close>, lines 144 to 162.\<close>

definition handleMouseMove :: "Env \<Rightarrow> PointerEvent \<Rightarrow> Editor \<Rightarrow> Editor" where
  "handleMouseMove env e s =
     (if isProcessing env then s
      else if mode s = PAN \<and> isDragging s then
        (let dx = clientX e - x (lastMousePos s);
             dy = clientY e - y (lastMousePos s)
         in s\<lparr>offset := \<lparr>x = x (offset s) + dx, y = y (offset s) + dy\<rparr>,
               lastMousePos := \<lparr>x = clientX e, y = clientY e\<rparr>\<rparr>)
      else if mode s = DRAW \<and> isDrawing s then
        (case getRelativeCoords env s e of
           None \<Rightarrow> s
         | Some coords \<Rightarrow> s\<lparr>currentPath := currentPath s @ [coords]\<rparr>)
      else s)"

text \<open>\<^verbatim>\<open>handleMouseUp\<close>, lines 164 to 174. It reads no property and no event.\<close>

definition handleMouseUp :: "Editor \<Rightarrow> Editor" where
  "handleMouseUp s =
     (if mode s = PAN then s\<lparr>isDragging := False\<rparr>
      else if mode s = DRAW \<and> isDrawing s then
        (if length (currentPath s) > 0 then
           s\<lparr>isDrawing := False,
             paths := paths s @ [\<lparr>points = currentPath s, path_size = brushSize s\<rparr>],
             currentPath := []\<rparr>
         else s\<lparr>isDrawing := False\<rparr>)
      else s)"

text \<open>\<^verbatim>\<open>handleWheel\<close>, lines 176 to 180; the argument is \<^verbatim>\<open>e.deltaY\<close>.\<close>

definition handleWheel :: "real \<Rightarrow> Editor \<Rightarrow> Editor" where
  "handleWheel deltaY s =
     (let newScale = max 0.1 (min 5 (scale s - deltaY * 0.001))
      in s\<lparr>scale := newScale\<rparr>)"

text \<open>\<^verbatim>\<open>undo\<close> and \<^verbatim>\<open>reset\<close>, lines 213 to 219.\<close>

definition undo :: "Editor \<Rightarrow> Editor" where
  "undo s = s\<lparr>paths := take (length (paths s) - 1) (paths s)\<rparr>"

definition reset :: "Editor \<Rightarrow> Editor" where
  "reset s = s\<lparr>paths := []\<rparr>"

text \<open>The mode buttons and the brush slider of the toolbar, lines 261, 268 and 285.\<close>

definition setMode :: "EditorMode \<Rightarrow> Editor \<Rightarrow> Editor" where
  "setMode m s = s\<lparr>mode := m\<rparr>"

definition setBrushSize :: "real \<Rightarrow> Editor \<Rightarrow> Editor" where
  "setBrushSize n s = s\<lparr>brushSize := n\<rparr>"

text \<open>
  The bindings of the canvas area, lines 228 to 235: mouse-down and touch-start call
  \<open>handleMouseDown\<close>, mouse-move and touch-move call \<open>handleMouseMove\<close>, mouse-up,
  mouse-leave and touch-end call \<open>handleMouseUp\<close>, the wheel calls \<open>handleWheel\<close>.
\<close>

datatype InputEvent =
  PointerDown PointerEvent
  | PointerMove PointerEvent
  | PointerUp
  | Wheel real

fun dispatch :: "Env \<Rightarrow> InputEvent \<Rightarrow> Editor \<Rightarrow> Editor" where
  "dispatch env (PointerDown e) s = handleMouseDown env e s"
| "dispatch env (PointerMove e) s = handleMouseMove env e s"
| "dispatch env PointerUp s = handleMouseUp s"
| "dispatch env (Wheel deltaY) s = handleWheel deltaY s"

text \<open>
  A gesture is a pointer-down, a sequence of pointer-moves and a pointer-up; each
  handler runs on the state the previous one left. Every move comes with the
  environment it is handled in.
\<close>

primrec pointerMoves :: "(Env \<times> PointerEvent) list \<Rightarrow> Editor \<Rightarrow> Editor" where
  "pointerMoves [] s = s"
| "pointerMoves (m # ms) s = pointerMoves ms (handleMouseMove (fst m) (snd m) s)"

definition beforeRelease :: "Env \<Rightarrow> PointerEvent \<Rightarrow> (Env \<times> PointerEvent) list \<Rightarrow> Editor \<Rightarrow> Editor" where
  "beforeRelease env e ms s = pointerMoves ms (handleMouseDown env e s)"

definition gesture :: "Env \<Rightarrow> PointerEvent \<Rightarrow> (Env \<times> PointerEvent) list \<Rightarrow> Editor \<Rightarrow> Editor" where
  "gesture env e ms s = handleMouseUp (beforeRelease env e ms s)"

subsection \<open>Mask rasterizer\<close>

text \<open>
  A canvas is modelled by its pixel dimensions and the drawing commands it has
  received: a filled rectangle (fill style, corner, width, height) or a stroked path
  (stroke style, line width, the point moved to, the points lines are drawn to). Caps
  and joins are round throughout. The data URL handed to \<^verbatim>\<open>onGenerate\<close> encodes the
  canvas at its own dimensions and is modelled by the canvas.
\<close>

datatype CanvasOp =
  FillRect string real real real real
  | StrokePath string real Point "Point list"

record Canvas =
  canvas_width :: nat
  canvas_height :: nat
  ops :: "CanvasOp list"

text \<open>The body of the loop over the paths, lines 199 to 207.\<close>

definition maskStroke :: "DrawPath \<Rightarrow> CanvasOp list" where
  "maskStroke path =
     (case points path of
        [] \<Rightarrow> []
      | p # ps \<Rightarrow> [StrokePath ''#FFFFFF'' (path_size path) p (p # ps)])"

text \<open>
  \<^verbatim>\<open>generateMask\<close>, lines 182 to 211: \<open>None\<close> when it returns early, otherwise the
  mask it passes to \<^verbatim>\<open>onGenerate\<close>.
\<close>

definition generateMask :: "Env \<Rightarrow> Editor \<Rightarrow> Canvas option" where
  "generateMask env s =
     (case imageRef s of
        None \<Rightarrow> None
      | Some img \<Rightarrow>
          (if \<not> context2d env then None
           else Some \<lparr>canvas_width = width img, canvas_height = height img,
                      ops = FillRect ''#000000'' 0 0 (real (width img)) (real (height img))
                            # concat (map maskStroke (paths s))\<rparr>))"

section \<open>The application (src/App.tsx)\<close>

text \<open>
  The two texts of the loading overlay and the one alert of the application are
  modelled by constructors: \<open>Processing\<close> is the initial loading text, \<open>Erasing\<close>
  the one set when a request starts, \<open>ProcessingFailed\<close> the alert of line 38.
\<close>

datatype LoadingText = Processing | Erasing

datatype Alert = ProcessingFailed

datatype RemoteFailure = RemoteFailure string

record App =
  originalImage :: "string option"
  processedImage :: "string option"
  isProcessing_App :: bool
  loadingText :: LoadingText

text \<open>
  The application with the state of the mounted editor component (\<open>None\<close> when no
  editor is mounted), the alerts shown and the errors logged so far.
\<close>

record System =
  app :: App
  editor :: "Editor option"
  alerts :: "Alert list"
  console :: "RemoteFailure list"

text \<open>
  Lines 102 to 108: the editor is rendered when there is an original image and no
  processed image. A component that stays rendered keeps its state, one that appears
  starts from its initial state, one that disappears loses its state.
\<close>

definition editorShown :: "App \<Rightarrow> bool" where
  "editorShown a = (originalImage a \<noteq> None \<and> processedImage a = None)"

definition render :: "System \<Rightarrow> System" where
  "render sys =
     sys\<lparr>editor :=
       (if editorShown (app sys) then
          (case editor sys of None \<Rightarrow> Some initialEditor | Some ed \<Rightarrow> Some ed)
        else None)\<rparr>"

text \<open>
  \<^verbatim>\<open>handleGenerate\<close>, lines 27 to 42, in two steps: what runs before the remote
  call is awaited, and what runs when the call has resolved (\<open>Inr\<close>) or rejected
  (\<open>Inl\<close>). The remote service is a parameter.
\<close>

definition beginGenerate :: "System \<Rightarrow> System" where
  "beginGenerate sys =
     render (sys\<lparr>app := (app sys)\<lparr>isProcessing_App := True, loadingText := Erasing\<rparr>\<rparr>)"

definition settleGenerate :: "RemoteFailure + string \<Rightarrow> System \<Rightarrow> System" where
  "settleGenerate r sys =
     render
       (case r of
          Inr result \<Rightarrow>
            sys\<lparr>app := (app sys)\<lparr>processedImage := Some result, isProcessing_App := False\<rparr>\<rparr>
        | Inl err \<Rightarrow>
            sys\<lparr>console := console sys @ [err],
                alerts := alerts sys @ [ProcessingFailed],
                app := (app sys)\<lparr>isProcessing_App := False\<rparr>\<rparr>)"

definition handleGenerate :: "(string \<Rightarrow> Canvas \<Rightarrow> RemoteFailure + string) \<Rightarrow> Canvas \<Rightarrow> System \<Rightarrow> System" where
  "handleGenerate removeWatermark maskBase64 sys =
     (case originalImage (app sys) of
        None \<Rightarrow> sys
      | Some img \<Rightarrow> settleGenerate (removeWatermark img maskBase64) (beginGenerate sys))"

section \<open>Runs of the editor\<close>

text \<open>
  Everything that changes the state of a mounted editor: an input event on the canvas
  area (handled in the environment of that moment), the toolbar (mode, brush size,
  undo, reset) and the load of an image. A run applies a list of actions in order.
\<close>

datatype Action =
  Input Env InputEvent
  | SetMode EditorMode
  | SetBrushSize real
  | Undo
  | Reset
  | ImageLoaded Env ImageDimensions

fun act :: "Action \<Rightarrow> Editor \<Rightarrow> Editor" where
  "act (Input env ev) s = dispatch env ev s"
| "act (SetMode m) s = setMode m s"
| "act (SetBrushSize n) s = setBrushSize n s"
| "act Undo s = undo s"
| "act Reset s = reset s"
| "act (ImageLoaded env img) s = imageOnload env img s"

primrec run :: "Action list \<Rightarrow> Editor \<Rightarrow> Editor" where
  "run [] s = s"
| "run (a # as) s = run as (act a s)"

section \<open>Concrete scenarios\<close>

definition container1000x800 :: Container where
  "container1000x800 = \<lparr>clientWidth = 1000, clientHeight = 800, rect_left = 0, rect_top = 0\<rparr>"

definition idleEnv :: Env where
  "idleEnv = \<lparr>containerRef = Some container1000x800, isProcessing = False, context2d = True\<rparr>"

definition busyEnv :: Env where
  "busyEnv = \<lparr>containerRef = Some container1000x800, isProcessing = True, context2d = True\<rparr>"

definition image800x600 :: ImageDimensions where
  "image800x600 = \<lparr>width = 800, height = 600\<rparr>"

definition image10000 :: ImageDimensions where
  "image10000 = \<lparr>width = 10000, height = 10000\<rparr>"

text \<open>The editor after the 800 by 600 image has loaded into the 1000 by 800 container.\<close>

definition loadedEditor :: Editor where
  "loadedEditor =
     \<lparr>imageRef = Some image800x600, mode = DRAW, brushSize = 20, paths = [], scale = 9 / 10,
      offset = \<lparr>x = 140, y = 130\<rparr>, isDragging = False,
      lastMousePos = \<lparr>x = 0, y = 0\<rparr>, isDrawing = False, currentPath = []\<rparr>"

text \<open>The same editor with one committed stroke and a second stroke in progress.\<close>

definition recordingEditor :: Editor where
  "recordingEditor =
     \<lparr>imageRef = Some image800x600, mode = DRAW, brushSize = 20,
      paths = [\<lparr>points = [\<lparr>x = 10, y = 10\<rparr>, \<lparr>x = 20, y = 10\<rparr>], path_size = 20\<rparr>],
      scale = 9 / 10, offset = \<lparr>x = 140, y = 130\<rparr>, isDragging = False,
      lastMousePos = \<lparr>x = 0, y = 0\<rparr>, isDrawing = True,
      currentPath = [\<lparr>x = 100, y = 100\<rparr>]\<rparr>"

text \<open>
  The application while the editor of an uploaded image is shown, and a remote
  service that rejects every request.
\<close>

definition editingSystem :: System where
  "editingSystem =
     \<lparr>app = \<lparr>originalImage = Some ''data:image/png;base64,AAAA'', processedImage = None,
              isProcessing_App = False, loadingText = Processing\<rparr>,
      editor = Some recordingEditor, alerts = [], console = []\<rparr>"

definition rejectingService :: "string \<Rightarrow> Canvas \<Rightarrow> RemoteFailure + string" where
  "rejectingService img m = Inl (RemoteFailure ''network error'')"

definition blankMask :: Canvas where
  "blankMask = \<lparr>canvas_width = 800, canvas_height = 600, ops = [FillRect ''#000000'' 0 0 800 600]\<rparr>"

section \<open>Frame lemmas of the handlers\<close>

lemma handleMouseDown_frame:
  "paths (handleMouseDown env e s) = paths s \<and> mode (handleMouseDown env e s) = mode s
   \<and> brushSize (handleMouseDown env e s) = brushSize s
   \<and> scale (handleMouseDown env e s) = scale s"
  by (simp add: handleMouseDown_def split: option.split)

lemma handleMouseMove_frame:
  "paths (handleMouseMove env e s) = paths s \<and> mode (handleMouseMove env e s) = mode s
   \<and> brushSize (handleMouseMove env e s) = brushSize s
   \<and> isDrawing (handleMouseMove env e s) = isDrawing s
   \<and> scale (handleMouseMove env e s) = scale s"
  by (simp add: handleMouseMove_def Let_def split: option.split)

lemma handleMouseUp_frame:
  "mode (handleMouseUp s) = mode s \<and> brushSize (handleMouseUp s) = brushSize s
   \<and> scale (handleMouseUp s) = scale s \<and> offset (handleMouseUp s) = offset s"
  by (simp add: handleMouseUp_def)

text \<open>A pointer-move only ever appends to the in-progress stroke, and only while drawing.\<close>

lemma handleMouseMove_appends:
  "\<exists>qs. currentPath (handleMouseMove env e s) = currentPath s @ qs \<and> (qs = [] \<or> isDrawing s)"
  by (simp add: handleMouseMove_def Let_def split: option.split)

lemma pointerMoves_frame:
  "paths (pointerMoves ms s) = paths s \<and> mode (pointerMoves ms s) = mode s
   \<and> brushSize (pointerMoves ms s) = brushSize s
   \<and> isDrawing (pointerMoves ms s) = isDrawing s"
  by (induction ms arbitrary: s) (simp_all add: handleMouseMove_frame)

lemma pointerMoves_appends:
  "\<exists>qs. currentPath (pointerMoves ms s) = currentPath s @ qs \<and> (qs = [] \<or> isDrawing s)"
proof (induction ms arbitrary: s)
  case Nil
  show ?case by simp
next
  case (Cons m ms)
  let ?s1 = "handleMouseMove (fst m) (snd m) s"
  obtain qs where qs: "currentPath ?s1 = currentPath s @ qs" "qs = [] \<or> isDrawing s"
    using handleMouseMove_appends by blast
  obtain rs where rs: "currentPath (pointerMoves ms ?s1) = currentPath ?s1 @ rs"
    "rs = [] \<or> isDrawing ?s1"
    using Cons.IH by blast
  have "currentPath (pointerMoves (m # ms) s) = currentPath s @ (qs @ rs)"
    using qs rs by simp
  moreover have "qs @ rs = [] \<or> isDrawing s"
    using qs rs by (auto simp add: handleMouseMove_frame)
  ultimately show ?case by blast
qed

lemma handleMouseDown_inv:
  "currentPath s = [] \<or> isDrawing s \<Longrightarrow>
   currentPath (handleMouseDown env e s) = [] \<or> isDrawing (handleMouseDown env e s)"
  by (auto simp add: handleMouseDown_def split: option.split)

lemma beforeRelease_inv:
  assumes "currentPath s = [] \<or> isDrawing s"
  shows "currentPath (beforeRelease env e ms s) = [] \<or> isDrawing (beforeRelease env e ms s)"
proof -
  let ?d = "handleMouseDown env e s"
  obtain qs where qs: "currentPath (pointerMoves ms ?d) = currentPath ?d @ qs"
    "qs = [] \<or> isDrawing ?d"
    using pointerMoves_appends by blast
  show ?thesis
    using qs handleMouseDown_inv [OF assms, of env e] pointerMoves_frame [of ms ?d]
    by (auto simp add: beforeRelease_def)
qed

lemma beforeRelease_frame:
  "paths (beforeRelease env e ms s) = paths s \<and> mode (beforeRelease env e ms s) = mode s
   \<and> brushSize (beforeRelease env e ms s) = brushSize s"
  by (simp add: beforeRelease_def pointerMoves_frame handleMouseDown_frame)

section \<open>The recording invariant\<close>

text \<open>
  In every state the editor reaches from its initial state, by any run of actions,
  the drawing flag is set exactly when the in-progress stroke is non-empty. So the
  branch of \<open>handleMouseUp\<close> that finds the flag set and the stroke empty is never
  taken, and a state with points in progress always has the flag set.
\<close>

lemma act_recording_inv:
  assumes "isDrawing s = (currentPath s \<noteq> [])"
  shows "isDrawing (act a s) = (currentPath (act a s) \<noteq> [])"
proof (cases a)
  case (Input env ev)
  show ?thesis
  proof (cases ev)
    case (PointerDown e)
    then show ?thesis using Input assms
      by (simp add: handleMouseDown_def split: option.split)
  next
    case (PointerMove e)
    then show ?thesis using Input assms
      by (simp add: handleMouseMove_def Let_def split: option.split)
  next
    case PointerUp
    then show ?thesis using Input assms by (simp add: handleMouseUp_def)
  next
    case (Wheel d)
    then show ?thesis using Input assms by (simp add: handleWheel_def Let_def)
  qed
next
  case (SetMode m)
  then show ?thesis using assms by (simp add: setMode_def)
next
  case (SetBrushSize n)
  then show ?thesis using assms by (simp add: setBrushSize_def)
next
  case Undo
  then show ?thesis using assms by (simp add: undo_def)
next
  case Reset
  then show ?thesis using assms by (simp add: reset_def)
next
  case (ImageLoaded env img)
  then show ?thesis using assms
    by (simp add: imageOnload_def fitImageToContainer_def Let_def split: option.split)
qed

lemma run_recording_inv:
  "isDrawing s = (currentPath s \<noteq> []) \<Longrightarrow> isDrawing (run as s) = (currentPath (run as s) \<noteq> [])"
  by (induction as arbitrary: s) (simp_all add: act_recording_inv)

lemma reachable_recording_inv:
  "isDrawing (run as initialEditor) = (currentPath (run as initialEditor) \<noteq> [])"
  by (rule run_recording_inv) (simp add: initialEditor_def)

section \<open>Viewport transform: round trip\<close>

text \<open>
  C1. With a container and an image present and a positive scale, the image point
  that \<open>getRelativeCoords\<close> computes for a pointer event is sent back by the forward
  transform of the canvas to the container position of that event, exactly (the
  numbers are reals, so the tolerance is zero); and the image point computed for a
  pointer at the container position of an image point \<open>q\<close> is \<open>q\<close> again.
\<close>

theorem getRelativeCoords_inverse:
  assumes "containerRef env = Some c" and "imageRef s = Some img" and "0 < scale s"
  shows "(\<exists>p. getRelativeCoords env s e = Some p \<and> toContainerSpace s p = containerCoords c e)
    \<and> getRelativeCoords env s
         (MouseEvent (x (toContainerSpace s q) + rect_left c) (y (toContainerSpace s q) + rect_top c))
       = Some q"
  using assms
  by (simp add: getRelativeCoords_def toContainerSpace_def containerCoords_def Let_def)

theorem getRelativeCoords_inverse_witness:
  "containerRef idleEnv = Some container1000x800 \<and> imageRef loadedEditor = Some image800x600
   \<and> 0 < scale loadedEditor
   \<and> getRelativeCoords idleEnv loadedEditor (MouseEvent 230 220) = Some \<lparr>x = 100, y = 100\<rparr>
   \<and> toContainerSpace loadedEditor \<lparr>x = 100, y = 100\<rparr> = \<lparr>x = 230, y = 220\<rparr>"
  using getRelativeCoords_inverse [of idleEnv container1000x800 loadedEditor image800x600
      "MouseEvent 230 220" "\<lparr>x = 100, y = 100\<rparr>"]
  by (simp add: idleEnv_def loadedEditor_def container1000x800_def toContainerSpace_def)

section \<open>Fitting the image to the container\<close>

text \<open>
  C2. With a container present and positive image dimensions, \<open>fitImageToContainer\<close>
  sets the scale to \<open>min(containerW / imgW, containerH / imgH, 1) * 0.9\<close> and the offset
  to \<open>((containerW - imgW * scale) / 2, (containerH - imgH * scale) / 2)\<close>; and an
  800 by 600 image loading into the 1000 by 800 container gives scale 0.9 and
  offset (140, 130), whatever the state before.
\<close>

theorem fitImageToContainer_scale_offset:
  assumes "containerRef env = Some c" and "0 < imgWidth" and "0 < imgHeight"
  shows "scale (fitImageToContainer env imgWidth imgHeight s)
           = min (real (clientWidth c) / imgWidth) (min (real (clientHeight c) / imgHeight) 1) * 0.9
       \<and> offset (fitImageToContainer env imgWidth imgHeight s)
           = \<lparr>x = (real (clientWidth c)
                     - imgWidth * scale (fitImageToContainer env imgWidth imgHeight s)) / 2,
              y = (real (clientHeight c)
                     - imgHeight * scale (fitImageToContainer env imgWidth imgHeight s)) / 2\<rparr>
       \<and> scale (imageOnload idleEnv image800x600 s') = 0.9
       \<and> offset (imageOnload idleEnv image800x600 s') = \<lparr>x = 140, y = 130\<rparr>"
  using assms
  by (simp add: fitImageToContainer_def imageOnload_def idleEnv_def image800x600_def
      container1000x800_def Let_def)

theorem fitImageToContainer_scale_offset_witness:
  "containerRef idleEnv = Some container1000x800 \<and> (0::real) < 800 \<and> (0::real) < 600
   \<and> scale (fitImageToContainer idleEnv 800 600 initialEditor) = 0.9
   \<and> offset (fitImageToContainer idleEnv 800 600 initialEditor) = \<lparr>x = 140, y = 130\<rparr>
   \<and> imageOnload idleEnv image800x600 initialEditor = loadedEditor"
  using fitImageToContainer_scale_offset [of idleEnv container1000x800 800 600 initialEditor]
  by (simp add: idleEnv_def container1000x800_def imageOnload_def fitImageToContainer_def
      image800x600_def initialEditor_def loadedEditor_def Let_def)

section \<open>The range of the scale\<close>

lemma min3_bounds:
  fixes a b :: real
  assumes "0 < a" and "0 < b"
  shows "0 < min a (min b 1) * 0.9" and "min a (min b 1) * 0.9 \<le> 0.9"
  using assms by (auto simp add: min_def)

lemma fitImageToContainer_scale_range:
  assumes "containerRef env = Some c" and "0 < imgWidth" and "0 < imgHeight"
    and "0 < clientWidth c" and "0 < clientHeight c"
  shows "0 < scale (fitImageToContainer env imgWidth imgHeight s)
     \<and> scale (fitImageToContainer env imgWidth imgHeight s) \<le> 0.9"
proof -
  let ?a = "real (clientWidth c) / imgWidth" and ?b = "real (clientHeight c) / imgHeight"
  have a: "0 < ?a" and b: "0 < ?b" using assms by simp_all
  have sc: "scale (fitImageToContainer env imgWidth imgHeight s) = min ?a (min ?b 1) * 0.9"
    using assms(1) by (simp add: fitImageToContainer_def Let_def)
  show ?thesis unfolding sc using min3_bounds [OF a b] by simp
qed

text \<open>
  C3, as the claim states it, fails: a 10000 by 10000 image loading into the
  1000 by 800 container leaves the scale at 0.072, below 0.1.
\<close>

theorem fit_scale_below_range:
  "scale (imageOnload idleEnv image10000 initialEditor) = 9 / 125
   \<and> \<not> (0.1 \<le> scale (imageOnload idleEnv image10000 initialEditor))"
  by (simp add: imageOnload_def fitImageToContainer_def idleEnv_def image10000_def
      initialEditor_def container1000x800_def Let_def)

text \<open>
  C3, amended. The scale lies in [0.1, 5] in the initial state and after every zoom
  step, whatever it was before the step, and pointer-down, pointer-move and
  pointer-up leave it as it is. After \<open>fitImageToContainer\<close>, with a container present
  and positive container and image dimensions, the scale is positive and at most 5;
  no lower bound of 0.1 holds there.
\<close>

theorem scale_range:
  assumes "containerRef env = Some c" and "0 < imgWidth" and "0 < imgHeight"
    and "0 < clientWidth c" and "0 < clientHeight c"
  shows "0.1 \<le> scale initialEditor \<and> scale initialEditor \<le> 5
     \<and> 0.1 \<le> scale (handleWheel deltaY s) \<and> scale (handleWheel deltaY s) \<le> 5
     \<and> scale (handleMouseDown env' e s) = scale s
     \<and> scale (handleMouseMove env' e s) = scale s
     \<and> scale (handleMouseUp s) = scale s
     \<and> 0 < scale (fitImageToContainer env imgWidth imgHeight s)
     \<and> scale (fitImageToContainer env imgWidth imgHeight s) \<le> 5"
proof -
  have "scale initialEditor = 1" by (simp add: initialEditor_def)
  moreover have "0.1 \<le> scale (handleWheel deltaY s) \<and> scale (handleWheel deltaY s) \<le> 5"
    by (simp add: handleWheel_def Let_def)
  ultimately show ?thesis
    using fitImageToContainer_scale_range [OF assms, of s] handleMouseDown_frame [of env' e s]
      handleMouseMove_frame [of env' e s] handleMouseUp_frame [of s]
    by simp
qed

theorem scale_range_witness:
  "containerRef idleEnv = Some container1000x800 \<and> (0::real) < 10000 \<and> (0::real) < 10000
   \<and> 0 < clientWidth container1000x800 \<and> 0 < clientHeight container1000x800
   \<and> 0.1 \<le> scale (handleWheel (-100000) loadedEditor)
   \<and> scale (handleWheel (-100000) loadedEditor) \<le> 5
   \<and> 0.1 \<le> scale (handleWheel 0 (fitImageToContainer idleEnv 10000 10000 loadedEditor))
   \<and> 0 < scale (fitImageToContainer idleEnv 10000 10000 loadedEditor)
   \<and> scale (fitImageToContainer idleEnv 10000 10000 loadedEditor) \<le> 5"
  using scale_range [of idleEnv container1000x800 10000 10000 "-100000" loadedEditor]
    scale_range [of idleEnv container1000x800 10000 10000 0
      "fitImageToContainer idleEnv 10000 10000 loadedEditor"]
  by (simp add: idleEnv_def container1000x800_def)

section \<open>Stroke recording\<close>

text \<open>
  C4. In Draw mode, from a state in which points in progress imply the drawing flag
  (every reachable state is one), a gesture of a pointer-down, any pointer-moves and
  a pointer-up lengthens the stroke history by exactly 1 when the in-progress stroke
  is non-empty at release, the new last stroke holding these points and the current
  brush size, and leaves the history as it was when the in-progress stroke is empty.
\<close>

theorem gesture_history_length:
  assumes "mode s = DRAW" and "currentPath s = [] \<or> isDrawing s"
  shows "length (paths (gesture env e ms s))
           = length (paths s) + (if currentPath (beforeRelease env e ms s) = [] then 0 else 1)
       \<and> (if currentPath (beforeRelease env e ms s) = [] then paths (gesture env e ms s) = paths s
          else paths (gesture env e ms s)
               = paths s @ [\<lparr>points = currentPath (beforeRelease env e ms s),
                              path_size = brushSize s\<rparr>])"
  using beforeRelease_inv [OF assms(2), of env e ms] beforeRelease_frame [of env e ms s] assms(1)
  by (auto simp add: gesture_def handleMouseUp_def)

theorem gesture_history_length_witness:
  "mode loadedEditor = DRAW \<and> (currentPath loadedEditor = [] \<or> isDrawing loadedEditor)
   \<and> currentPath (beforeRelease idleEnv (MouseEvent 230 220) [(idleEnv, MouseEvent 320 220)] loadedEditor)
       = [\<lparr>x = 100, y = 100\<rparr>, \<lparr>x = 200, y = 100\<rparr>]
   \<and> length (paths (gesture idleEnv (MouseEvent 230 220) [(idleEnv, MouseEvent 320 220)] loadedEditor))
       = length (paths loadedEditor) + 1
   \<and> currentPath (beforeRelease busyEnv (MouseEvent 230 220) [(busyEnv, MouseEvent 320 220)] loadedEditor)
       = []
   \<and> paths (gesture busyEnv (MouseEvent 230 220) [(busyEnv, MouseEvent 320 220)] loadedEditor)
       = paths loadedEditor"
proof -
  have a: "currentPath (beforeRelease idleEnv (MouseEvent 230 220) [(idleEnv, MouseEvent 320 220)] loadedEditor)
       = [\<lparr>x = 100, y = 100\<rparr>, \<lparr>x = 200, y = 100\<rparr>]"
    by (simp add: beforeRelease_def handleMouseDown_def handleMouseMove_def getRelativeCoords_def
        idleEnv_def loadedEditor_def container1000x800_def Let_def)
  have b: "currentPath (beforeRelease busyEnv (MouseEvent 230 220) [(busyEnv, MouseEvent 320 220)] loadedEditor)
       = []"
    by (simp add: beforeRelease_def handleMouseDown_def handleMouseMove_def busyEnv_def
        loadedEditor_def)
  have m: "mode loadedEditor = DRAW" and i: "currentPath loadedEditor = [] \<or> isDrawing loadedEditor"
    by (simp_all add: loadedEditor_def)
  show ?thesis
    using a b m i
      gesture_history_length [OF m i, of idleEnv "MouseEvent 230 220" "[(idleEnv, MouseEvent 320 220)]"]
      gesture_history_length [OF m i, of busyEnv "MouseEvent 230 220" "[(busyEnv, MouseEvent 320 220)]"]
    by simp
qed

text \<open>
  C10, as the claim states it, fails: a pointer-down in Draw mode, not busy, with
  container and image present, seeds the in-progress stroke with one point and sets
  the drawing flag; the mode is then set to Pan; after the following pointer-move
  and pointer-up the history is still empty, so this gesture commits no stroke.
\<close>

theorem begun_gesture_mode_change:
  "mode loadedEditor = DRAW \<and> \<not> isProcessing idleEnv
   \<and> currentPath (run [Input idleEnv (PointerDown (MouseEvent 230 220))] loadedEditor)
       = [\<lparr>x = 100, y = 100\<rparr>]
   \<and> isDrawing (run [Input idleEnv (PointerDown (MouseEvent 230 220))] loadedEditor)
   \<and> paths loadedEditor = []
   \<and> paths (run [Input idleEnv (PointerDown (MouseEvent 230 220)), SetMode PAN,
                  Input idleEnv (PointerMove (MouseEvent 320 220)), Input idleEnv PointerUp]
             loadedEditor) = []"
  by (simp add: idleEnv_def loadedEditor_def container1000x800_def handleMouseDown_def
      handleMouseMove_def handleMouseUp_def setMode_def getRelativeCoords_def Let_def)

text \<open>
  C10, amended. When a pointer-down arrives in Draw mode, not busy, with container
  and image present, the in-progress stroke becomes exactly one point. From then on,
  through any run of actions, the drawing flag is set exactly when the in-progress
  stroke is non-empty, so a pointer-up never finds the flag set and the stroke empty.
  When the gesture is this pointer-down, any pointer-moves and a pointer-up, with the
  mode left at Draw in between, the in-progress stroke still starts with the seeded
  point at release and the pointer-up appends exactly one stroke, holding the points
  in progress and the brush size, to the history.
\<close>

theorem begun_gesture_commits:
  assumes "mode s = DRAW" and "\<not> isProcessing env" and "containerRef env = Some c"
    and "imageRef s = Some img"
  shows "\<exists>p qs. currentPath (handleMouseDown env e s) = [p]
           \<and> currentPath (beforeRelease env e ms s) = p # qs
           \<and> isDrawing (beforeRelease env e ms s)
           \<and> paths (gesture env e ms s) = paths s @ [\<lparr>points = p # qs, path_size = brushSize s\<rparr>]
           \<and> length (paths (gesture env e ms s)) = length (paths s) + 1
           \<and> isDrawing (run as (handleMouseDown env e s))
               = (currentPath (run as (handleMouseDown env e s)) \<noteq> [])"
proof -
  let ?d = "handleMouseDown env e s"
  obtain p where p: "getRelativeCoords env s e = Some p"
    using assms(3,4) by (simp add: getRelativeCoords_def Let_def)
  have d: "currentPath ?d = [p]" "isDrawing ?d"
    using assms(1,2) p by (simp_all add: handleMouseDown_def)
  obtain qs where qs: "currentPath (pointerMoves ms ?d) = currentPath ?d @ qs"
    using pointerMoves_appends by blast
  have b: "currentPath (beforeRelease env e ms s) = p # qs" "isDrawing (beforeRelease env e ms s)"
    using qs d pointerMoves_frame [of ms ?d] by (simp_all add: beforeRelease_def)
  have "paths (gesture env e ms s) = paths s @ [\<lparr>points = p # qs, path_size = brushSize s\<rparr>]"
    using b beforeRelease_frame [of env e ms s] assms(1)
    by (simp add: gesture_def handleMouseUp_def)
  moreover have "isDrawing (run as ?d) = (currentPath (run as ?d) \<noteq> [])"
    by (rule run_recording_inv) (simp add: d)
  ultimately show ?thesis using d b by simp
qed

theorem begun_gesture_commits_witness:
  "mode recordingEditor = DRAW \<and> \<not> isProcessing idleEnv
   \<and> containerRef idleEnv = Some container1000x800
   \<and> imageRef recordingEditor = Some image800x600
   \<and> currentPath (beforeRelease idleEnv (TouchEvent (230, 220) []) [(idleEnv, MouseEvent 320 220)]
        recordingEditor) = [\<lparr>x = 100, y = 100\<rparr>, \<lparr>x = 200, y = 100\<rparr>]
   \<and> paths (gesture idleEnv (TouchEvent (230, 220) []) [(idleEnv, MouseEvent 320 220)]
        recordingEditor)
      = paths recordingEditor
        @ [\<lparr>points = [\<lparr>x = 100, y = 100\<rparr>, \<lparr>x = 200, y = 100\<rparr>], path_size = 20\<rparr>]"
proof -
  have cp: "currentPath (beforeRelease idleEnv (TouchEvent (230, 220) []) [(idleEnv, MouseEvent 320 220)]
        recordingEditor) = [\<lparr>x = 100, y = 100\<rparr>, \<lparr>x = 200, y = 100\<rparr>]"
    by (simp add: beforeRelease_def handleMouseDown_def handleMouseMove_def getRelativeCoords_def
        idleEnv_def recordingEditor_def container1000x800_def Let_def)
  have h: "mode recordingEditor = DRAW" "\<not> isProcessing idleEnv"
    "containerRef idleEnv = Some container1000x800" "imageRef recordingEditor = Some image800x600"
    "brushSize recordingEditor = 20"
    by (simp_all add: recordingEditor_def idleEnv_def)
  show ?thesis
    using begun_gesture_commits [OF h(1-4), of "TouchEvent (230, 220) []"
        "[(idleEnv, MouseEvent 320 220)]" "[]"] cp h
    by auto
qed

section \<open>Input while a request is in flight\<close>

lemma busy_down_move_ignored:
  "isProcessing env \<Longrightarrow>
   dispatch env (PointerDown e) s = s \<and> dispatch env (PointerMove e) s = s"
  by (simp add: handleMouseDown_def handleMouseMove_def)

text \<open>
  C5. Pointer-down and pointer-move return at once while the busy flag is set, but
  pointer-up and the wheel do not read the flag. In the recording editor, with the
  busy flag set, a pointer-up commits the in-progress stroke to the history, empties
  the in-progress stroke and clears the drawing flag, and a wheel step of 100 takes
  the scale from 0.9 to 0.8.
\<close>

theorem busy_pointerUp_commits:
  "isProcessing busyEnv
   \<and> paths (dispatch busyEnv PointerUp recordingEditor)
       = paths recordingEditor @ [\<lparr>points = [\<lparr>x = 100, y = 100\<rparr>], path_size = 20\<rparr>]
   \<and> currentPath recordingEditor = [\<lparr>x = 100, y = 100\<rparr>]
   \<and> currentPath (dispatch busyEnv PointerUp recordingEditor) = []
   \<and> isDrawing recordingEditor
   \<and> isDrawing (dispatch busyEnv PointerUp recordingEditor) = False
   \<and> scale recordingEditor = 9 / 10
   \<and> scale (dispatch busyEnv (Wheel 100) recordingEditor) = 8 / 10"
  by (simp add: busyEnv_def recordingEditor_def handleMouseUp_def handleWheel_def Let_def)

section \<open>Mode changes during a gesture\<close>

text \<open>
  What the moves of a gesture do while the mode stays as it is: in Draw mode with the
  drawing flag set they append their image points, in Pan mode with the dragging flag
  set they keep the difference of offset and last pointer position.
\<close>

lemma getRelativeCoords_cong:
  "offset s' = offset s \<Longrightarrow> scale s' = scale s \<Longrightarrow> imageRef s' = imageRef s \<Longrightarrow>
   getRelativeCoords env s' = getRelativeCoords env s"
  by (rule ext) (simp add: getRelativeCoords_def Let_def split: option.split)

lemma getRelativeCoords_Some:
  "containerRef env = Some c \<Longrightarrow> imageRef s = Some img \<Longrightarrow> \<exists>p. getRelativeCoords env s e = Some p"
  by (simp add: getRelativeCoords_def Let_def)

lemma draw_moves:
  assumes "\<not> isProcessing env" and "containerRef env = Some c"
  shows "mode s = DRAW \<Longrightarrow> isDrawing s \<Longrightarrow> imageRef s = Some img \<Longrightarrow>
     map Some (currentPath (pointerMoves (map (Pair env) es) s))
       = map Some (currentPath s) @ map (getRelativeCoords env s) es
     \<and> offset (pointerMoves (map (Pair env) es) s) = offset s"
proof (induction es arbitrary: s)
  case Nil
  show ?case by simp
next
  case (Cons e es)
  obtain p where p: "getRelativeCoords env s e = Some p"
    using getRelativeCoords_Some [OF assms(2) Cons.prems(3)] by blast
  let ?s1 = "handleMouseMove env e s"
  have s1: "?s1 = s\<lparr>currentPath := currentPath s @ [p]\<rparr>"
    using assms(1) Cons.prems(1,2) p by (simp add: handleMouseMove_def)
  have c: "getRelativeCoords env ?s1 = getRelativeCoords env s"
    by (rule getRelativeCoords_cong) (simp_all add: s1)
  have "map Some (currentPath (pointerMoves (map (Pair env) es) ?s1))
       = map Some (currentPath ?s1) @ map (getRelativeCoords env ?s1) es
     \<and> offset (pointerMoves (map (Pair env) es) ?s1) = offset ?s1"
    by (rule Cons.IH) (simp_all add: s1 Cons.prems)
  then show ?case using p c by (simp add: s1)
qed

lemma pan_moves:
  assumes "\<not> isProcessing env"
  shows "mode s = PAN \<Longrightarrow> isDragging s \<Longrightarrow>
     x (offset (pointerMoves (map (Pair env) es) s)) - x (lastMousePos (pointerMoves (map (Pair env) es) s))
       = x (offset s) - x (lastMousePos s)
     \<and> y (offset (pointerMoves (map (Pair env) es) s)) - y (lastMousePos (pointerMoves (map (Pair env) es) s))
       = y (offset s) - y (lastMousePos s)
     \<and> x (lastMousePos (pointerMoves (map (Pair env) es) s))
       = (if es = [] then x (lastMousePos s) else clientX (last es))
     \<and> y (lastMousePos (pointerMoves (map (Pair env) es) s))
       = (if es = [] then y (lastMousePos s) else clientY (last es))
     \<and> isDragging (pointerMoves (map (Pair env) es) s)
     \<and> currentPath (pointerMoves (map (Pair env) es) s) = currentPath s"
proof (induction es arbitrary: s)
  case Nil
  then show ?case by simp
next
  case (Cons e es)
  let ?s1 = "handleMouseMove env e s"
  have s1: "?s1 = s\<lparr>offset := \<lparr>x = x (offset s) + (clientX e - x (lastMousePos s)),
                                y = y (offset s) + (clientY e - y (lastMousePos s))\<rparr>,
                     lastMousePos := \<lparr>x = clientX e, y = clientY e\<rparr>\<rparr>"
    using assms Cons.prems by (simp add: handleMouseMove_def Let_def)
  have m: "mode ?s1 = PAN" "isDragging ?s1" using Cons.prems by (simp_all add: s1)
  show ?case using Cons.IH [OF m] by (simp add: s1)
qed


text \<open>
  C6, as the claim states it, fails: a gesture begins in Draw mode with one point,
  the mode is set to Pan, and then the pointer-move adds no point and the pointer-up
  commits no stroke and leaves the drawing flag set; without the mode change the same
  move and release commit a stroke of two points.
\<close>

theorem mode_not_latched:
  "currentPath (handleMouseDown idleEnv (MouseEvent 230 220) loadedEditor) = [\<lparr>x = 100, y = 100\<rparr>]
   \<and> currentPath (handleMouseMove idleEnv (MouseEvent 320 220)
        (setMode PAN (handleMouseDown idleEnv (MouseEvent 230 220) loadedEditor)))
      = [\<lparr>x = 100, y = 100\<rparr>]
   \<and> paths (handleMouseUp (handleMouseMove idleEnv (MouseEvent 320 220)
        (setMode PAN (handleMouseDown idleEnv (MouseEvent 230 220) loadedEditor)))) = []
   \<and> isDrawing (handleMouseUp (handleMouseMove idleEnv (MouseEvent 320 220)
        (setMode PAN (handleMouseDown idleEnv (MouseEvent 230 220) loadedEditor))))
   \<and> paths (handleMouseUp (handleMouseMove idleEnv (MouseEvent 320 220)
        (handleMouseDown idleEnv (MouseEvent 230 220) loadedEditor)))
      = [\<lparr>points = [\<lparr>x = 100, y = 100\<rparr>, \<lparr>x = 200, y = 100\<rparr>], path_size = 20\<rparr>]"
  by (simp add: idleEnv_def loadedEditor_def container1000x800_def handleMouseDown_def
      handleMouseMove_def handleMouseUp_def setMode_def getRelativeCoords_def Let_def)

text \<open>
  C6, amended. For every gesture during which the mode is not changed and no request
  is in flight, the mode at gesture start governs all its events. Begun in Draw mode
  with container and image present, the pointer-down and every pointer-move add
  their image point to the in-progress stroke, in order, and the pointer-up commits
  these points as one stroke with the current brush size, empties the in-progress
  stroke and clears the drawing flag; the offset stays as it was. Begun in Pan mode,
  the moves shift the offset by the displacement of the pointer since the
  pointer-down, and the pointer-up clears the dragging flag; history and in-progress
  stroke stay as they were. Nothing is stated about the events that follow a change
  of mode during a gesture.
\<close>

theorem unchanged_mode_gesture:
  assumes "\<not> isProcessing env"
  shows "(mode s = DRAW \<and> containerRef env = Some c \<and> imageRef s = Some img \<longrightarrow>
            map Some (currentPath (beforeRelease env e (map (Pair env) es) s))
              = map (getRelativeCoords env s) (e # es)
          \<and> isDrawing (beforeRelease env e (map (Pair env) es) s)
          \<and> paths (gesture env e (map (Pair env) es) s)
              = paths s @ [\<lparr>points = currentPath (beforeRelease env e (map (Pair env) es) s),
                             path_size = brushSize s\<rparr>]
          \<and> currentPath (gesture env e (map (Pair env) es) s) = []
          \<and> \<not> isDrawing (gesture env e (map (Pair env) es) s)
          \<and> offset (gesture env e (map (Pair env) es) s) = offset s)
       \<and> (mode s = PAN \<longrightarrow>
            isDragging (beforeRelease env e (map (Pair env) es) s)
          \<and> offset (gesture env e (map (Pair env) es) s)
              = \<lparr>x = x (offset s) + (clientX (last (e # es)) - clientX e),
                 y = y (offset s) + (clientY (last (e # es)) - clientY e)\<rparr>
          \<and> \<not> isDragging (gesture env e (map (Pair env) es) s)
          \<and> paths (gesture env e (map (Pair env) es) s) = paths s
          \<and> currentPath (gesture env e (map (Pair env) es) s) = currentPath s)"
proof (intro conjI impI)
  let ?d = "handleMouseDown env e s"
  let ?b = "beforeRelease env e (map (Pair env) es) s"
  let ?g = "gesture env e (map (Pair env) es) s"
  {
    assume a: "mode s = DRAW \<and> containerRef env = Some c \<and> imageRef s = Some img"
    obtain p where p: "getRelativeCoords env s e = Some p"
      using getRelativeCoords_Some a by blast
    have d: "?d = s\<lparr>isDrawing := True, currentPath := [p]\<rparr>"
      using assms a p by (simp add: handleMouseDown_def)
    have c: "getRelativeCoords env ?d = getRelativeCoords env s"
      by (rule getRelativeCoords_cong) (simp_all add: d)
    have m: "map Some (currentPath (pointerMoves (map (Pair env) es) ?d))
         = map Some (currentPath ?d) @ map (getRelativeCoords env ?d) es
       \<and> offset (pointerMoves (map (Pair env) es) ?d) = offset ?d"
      using a by (intro draw_moves [OF assms, of c ?d img es]) (simp_all add: d)
    show b1: "map Some (currentPath ?b) = map (getRelativeCoords env s) (e # es)"
      using m c p by (simp add: beforeRelease_def d)
    show b2: "isDrawing ?b"
      using pointerMoves_frame [of "map (Pair env) es" ?d] by (simp add: beforeRelease_def d)
    have ne: "currentPath ?b \<noteq> []" using b1 by auto
    have fr: "paths ?b = paths s" "mode ?b = DRAW" "brushSize ?b = brushSize s"
      using beforeRelease_frame [of env e "map (Pair env) es" s] a by simp_all
    have off: "offset ?b = offset s" using m by (simp add: beforeRelease_def d)
    show "paths ?g = paths s @ [\<lparr>points = currentPath ?b, path_size = brushSize s\<rparr>]"
      using b2 ne fr by (simp add: gesture_def handleMouseUp_def)
    show "currentPath ?g = []" using b2 ne fr by (simp add: gesture_def handleMouseUp_def)
    show "\<not> isDrawing ?g" using b2 ne fr by (simp add: gesture_def handleMouseUp_def)
    show "offset ?g = offset s" using off handleMouseUp_frame [of ?b] by (simp add: gesture_def)
  }
  {
    assume a: "mode s = PAN"
    have d: "?d = s\<lparr>isDragging := True, lastMousePos := \<lparr>x = clientX e, y = clientY e\<rparr>\<rparr>"
      using assms a by (simp add: handleMouseDown_def)
    have dm: "mode ?d = PAN" "isDragging ?d" using a by (simp_all add: d)
    note pm = pan_moves [OF assms dm, of es, folded beforeRelease_def]
    have fr: "paths ?b = paths s" "mode ?b = PAN"
      using beforeRelease_frame [of env e "map (Pair env) es" s] a by simp_all
    show "isDragging ?b" using pm by simp
    have lx: "x (lastMousePos ?b) = clientX (last (e # es))"
      and ly: "y (lastMousePos ?b) = clientY (last (e # es))"
      using pm by (simp_all add: d)
    have "x (offset ?b) - x (lastMousePos ?b) = x (offset s) - clientX e"
      and "y (offset ?b) - y (lastMousePos ?b) = y (offset s) - clientY e"
      using pm by (simp_all add: d)
    then have ox: "x (offset ?b) = x (offset s) + (clientX (last (e # es)) - clientX e)"
      and oy: "y (offset ?b) = y (offset s) + (clientY (last (e # es)) - clientY e)"
      unfolding lx ly by linarith+
    have "offset ?g = offset ?b" using handleMouseUp_frame [of ?b] by (simp add: gesture_def)
    then show "offset ?g = \<lparr>x = x (offset s) + (clientX (last (e # es)) - clientX e),
                 y = y (offset s) + (clientY (last (e # es)) - clientY e)\<rparr>"
      using ox oy by simp
    show "\<not> isDragging ?g" using fr by (simp add: gesture_def handleMouseUp_def)
    show "paths ?g = paths s" using fr by (simp add: gesture_def handleMouseUp_def)
    show "currentPath ?g = currentPath s"
      using fr pm by (simp add: gesture_def handleMouseUp_def d)
  }
qed

theorem unchanged_mode_gesture_witness:
  "\<not> isProcessing idleEnv
   \<and> mode loadedEditor = DRAW \<and> containerRef idleEnv = Some container1000x800
   \<and> imageRef loadedEditor = Some image800x600
   \<and> paths (gesture idleEnv (MouseEvent 230 220) (map (Pair idleEnv) [MouseEvent 320 220]) loadedEditor)
       = [\<lparr>points = [\<lparr>x = 100, y = 100\<rparr>, \<lparr>x = 200, y = 100\<rparr>], path_size = 20\<rparr>]
   \<and> mode (setMode PAN loadedEditor) = PAN
   \<and> offset (gesture idleEnv (MouseEvent 230 220) (map (Pair idleEnv) [MouseEvent 320 220])
        (setMode PAN loadedEditor)) = \<lparr>x = 230, y = 130\<rparr>"
proof -
  have i: "\<not> isProcessing idleEnv" by (simp add: idleEnv_def)
  have g: "getRelativeCoords idleEnv loadedEditor (MouseEvent 230 220) = Some \<lparr>x = 100, y = 100\<rparr>"
    "getRelativeCoords idleEnv loadedEditor (MouseEvent 320 220) = Some \<lparr>x = 200, y = 100\<rparr>"
    by (simp_all add: getRelativeCoords_def idleEnv_def loadedEditor_def container1000x800_def)
  have h: "mode loadedEditor = DRAW \<and> containerRef idleEnv = Some container1000x800
       \<and> imageRef loadedEditor = Some image800x600"
    by (simp add: loadedEditor_def idleEnv_def)
  have cp: "currentPath (beforeRelease idleEnv (MouseEvent 230 220)
        (map (Pair idleEnv) [MouseEvent 320 220]) loadedEditor)
      = [\<lparr>x = 100, y = 100\<rparr>, \<lparr>x = 200, y = 100\<rparr>]"
    using unchanged_mode_gesture [OF i, of loadedEditor container1000x800 image800x600
        "MouseEvent 230 220" "[MouseEvent 320 220]"] h g
    by (auto simp add: map_eq_Cons_conv)
  have b: "brushSize loadedEditor = 20" "paths loadedEditor = []"
    "offset (setMode PAN loadedEditor) = \<lparr>x = 140, y = 130\<rparr>" "mode (setMode PAN loadedEditor) = PAN"
    by (simp_all add: loadedEditor_def setMode_def)
  show ?thesis
    using unchanged_mode_gesture [OF i, of loadedEditor container1000x800 image800x600
        "MouseEvent 230 220" "[MouseEvent 320 220]"]
      unchanged_mode_gesture [OF i, of "setMode PAN loadedEditor" container1000x800 image800x600
        "MouseEvent 230 220" "[MouseEvent 320 220]"] h i cp b
    by simp
qed

section \<open>Image load\<close>

lemma imageOnload_frame:
  "mode (imageOnload env img s) = mode s \<and> brushSize (imageOnload env img s) = brushSize s
   \<and> currentPath (imageOnload env img s) = currentPath s
   \<and> isDrawing (imageOnload env img s) = isDrawing s"
  by (simp add: imageOnload_def fitImageToContainer_def Let_def split: option.split)

lemma imageOnload_clears_paths:
  "containerRef env = Some c \<Longrightarrow> paths (imageOnload env img s) = []"
  by (simp add: imageOnload_def fitImageToContainer_def Let_def)

text \<open>
  C7. The load of an image sets the viewport and empties the history, and leaves
  mode and brush size as they are, but it does not touch the in-progress stroke: in
  the recording editor, after the 10000 by 10000 image has loaded, the in-progress
  stroke still holds its point and the drawing flag is still set.
\<close>

theorem imageOnload_keeps_currentPath:
  "currentPath recordingEditor = [\<lparr>x = 100, y = 100\<rparr>]
   \<and> currentPath (imageOnload idleEnv image10000 recordingEditor) = [\<lparr>x = 100, y = 100\<rparr>]
   \<and> isDrawing (imageOnload idleEnv image10000 recordingEditor)
   \<and> paths (imageOnload idleEnv image10000 recordingEditor) = []
   \<and> imageRef (imageOnload idleEnv image10000 recordingEditor) = Some image10000
   \<and> mode (imageOnload idleEnv image10000 recordingEditor) = mode recordingEditor
   \<and> brushSize (imageOnload idleEnv image10000 recordingEditor) = brushSize recordingEditor"
  by (simp add: imageOnload_def fitImageToContainer_def idleEnv_def recordingEditor_def Let_def)

section \<open>Mask generation\<close>

text \<open>
  C9. With an image loaded and a 2d context available, \<open>generateMask\<close> produces a
  mask whose width and height are those of the image, and it produces the same mask
  whatever the scale and the offset of the viewport are set to.
\<close>

theorem generateMask_dimensions:
  assumes "imageRef s = Some img" and "context2d env"
  shows "\<exists>m. generateMask env s = Some m
           \<and> canvas_width m = width img \<and> canvas_height m = height img
           \<and> generateMask env (s\<lparr>scale := k, offset := off\<rparr>) = Some m"
  using assms by (simp add: generateMask_def)

theorem generateMask_dimensions_witness:
  "imageRef recordingEditor = Some image800x600 \<and> context2d idleEnv
   \<and> (\<exists>m. generateMask idleEnv recordingEditor = Some m
           \<and> canvas_width m = 800 \<and> canvas_height m = 600
           \<and> generateMask idleEnv (recordingEditor\<lparr>scale := 5, offset := \<lparr>x = -3000, y = 77\<rparr>\<rparr>) = Some m)"
  using generateMask_dimensions [where s = recordingEditor and img = image800x600 and env = idleEnv
      and k = 5 and off = "\<lparr>x = -3000, y = 77\<rparr>"]
  by (simp add: recordingEditor_def idleEnv_def image800x600_def)

section \<open>A rejected request\<close>

lemma settleGenerate_clears_busy: "isProcessing_App (app (settleGenerate r sys)) = False"
  by (cases r) (simp_all add: settleGenerate_def render_def)

lemma beginGenerate_shown:
  assumes "originalImage (app sys) = Some img" and "processedImage (app sys) = None"
    and "editor sys = Some ed"
  shows "editor (beginGenerate sys) = Some ed \<and> alerts (beginGenerate sys) = alerts sys
     \<and> originalImage (app (beginGenerate sys)) = Some img
     \<and> processedImage (app (beginGenerate sys)) = None"
  using assms by (simp add: beginGenerate_def render_def editorShown_def)

lemma settleGenerate_rejected:
  assumes "originalImage (app sys) = Some img" and "processedImage (app sys) = None"
    and "editor sys = Some ed"
  shows "editor (settleGenerate (Inl err) sys) = Some ed
     \<and> alerts (settleGenerate (Inl err) sys) = alerts sys @ [ProcessingFailed]
     \<and> originalImage (app (settleGenerate (Inl err) sys)) = Some img
     \<and> processedImage (app (settleGenerate (Inl err) sys)) = None"
  using assms by (simp add: settleGenerate_def render_def editorShown_def)

text \<open>When the request resolves, the editor gives way to the comparison view.\<close>

lemma settleGenerate_resolved:
  "editor (settleGenerate (Inr result) sys) = None
   \<and> processedImage (app (settleGenerate (Inr result) sys)) = Some result"
  by (simp add: settleGenerate_def render_def editorShown_def)

text \<open>
  C8. While the editor of an image is shown, a request that the remote service
  rejects ends with the busy flag cleared, one more alert (the failure alert), the
  same original and processed image, and the mounted editor in exactly the state it
  had before the call, so with the same history, scale and offset. The busy flag is
  also cleared whenever a request settles, resolved or rejected.
\<close>

theorem handleGenerate_rejected:
  assumes "originalImage (app sys) = Some img" and "processedImage (app sys) = None"
    and "editor sys = Some ed" and "removeWatermark img maskBase64 = Inl err"
  shows "isProcessing_App (app (handleGenerate removeWatermark maskBase64 sys)) = False
       \<and> alerts (handleGenerate removeWatermark maskBase64 sys) = alerts sys @ [ProcessingFailed]
       \<and> editor (handleGenerate removeWatermark maskBase64 sys) = Some ed
       \<and> originalImage (app (handleGenerate removeWatermark maskBase64 sys)) = Some img
       \<and> processedImage (app (handleGenerate removeWatermark maskBase64 sys)) = None
       \<and> isProcessing_App (app (settleGenerate r sys')) = False"
proof -
  let ?b = "beginGenerate sys"
  have hg: "handleGenerate removeWatermark maskBase64 sys = settleGenerate (Inl err) ?b"
    using assms(1,4) by (simp add: handleGenerate_def)
  have b: "originalImage (app ?b) = Some img" "processedImage (app ?b) = None"
    "editor ?b = Some ed" "alerts ?b = alerts sys"
    using beginGenerate_shown [OF assms(1-3)] by simp_all
  show ?thesis
    unfolding hg
    using settleGenerate_rejected [OF b(1-3), of err] b(4) settleGenerate_clears_busy
    by simp
qed

theorem handleGenerate_rejected_witness:
  "originalImage (app editingSystem) = Some ''data:image/png;base64,AAAA''
   \<and> processedImage (app editingSystem) = None
   \<and> editor editingSystem = Some recordingEditor
   \<and> rejectingService ''data:image/png;base64,AAAA'' blankMask = Inl (RemoteFailure ''network error'')
   \<and> isProcessing_App (app (handleGenerate rejectingService blankMask editingSystem)) = False
   \<and> alerts (handleGenerate rejectingService blankMask editingSystem) = [ProcessingFailed]
   \<and> editor (handleGenerate rejectingService blankMask editingSystem) = Some recordingEditor"
  using handleGenerate_rejected [of editingSystem "''data:image/png;base64,AAAA''" recordingEditor
      rejectingService blankMask "RemoteFailure ''network error''"]
  by (simp add: editingSystem_def rejectingService_def)

end
